theory Spec2Isabelle
  imports Complex_Main "HOL-Library.Word"
begin

section \<open>Ruckig: blocks of forbidden durations, recorded profiles, errors\<close>

text \<open>
  A shallow embedding of \<^verbatim>\<open>include/ruckig/steps.hpp\<close> and
  \<^verbatim>\<open>include/ruckig/error.hpp\<close>.

  Numbers. A C++ \<^verbatim>\<open>double\<close> is modelled as a real number. The members embedded here
  only compare durations with \<^verbatim>\<open><\<close> and \<^verbatim>\<open>>\<close> and add a brake time to a
  sum of phase durations; the model therefore stands for finite, non-NaN doubles, and the
  one addition appears with the same operands on both sides of every statement about it.
  A \<^verbatim>\<open>size_t\<close> is a 64-bit word.

  Arrays. A \<^verbatim>\<open>std::array<T, n>\<close> is a list of length \<open>n\<close>. An index that C++ leaves
  unchecked is checked in the model, and an index outside the array is the failure
  \<open>IndexOutOfRange\<close> (undefined behaviour in C++).
\<close>

type_synonym double = real
type_synonym size_t = "64 word"

subsection \<open>Errors (error.hpp)\<close>

text \<open>
  \<^verbatim>\<open>std::runtime_error\<close> carries the string that \<^verbatim>\<open>what()\<close> returns.
  \<^verbatim>\<open>RuckigError\<close> derives from it and only adds its constructor.
\<close>

datatype runtime_error = runtime_error string

fun what :: "runtime_error \<Rightarrow> string" where
  "what (runtime_error message) = message"

definition RuckigError :: "string \<Rightarrow> runtime_error" where
  "RuckigError message = runtime_error (''\<newline>[ruckig] '' @ message)"

text \<open>
  How a member function can end other than by returning: by throwing an exception, or by
  indexing an array outside its bounds.
\<close>

datatype failure = Thrown runtime_error | IndexOutOfRange

subsection \<open>Profile (profile.hpp)\<close>

text \<open>
  Modelled from the spec: \<^verbatim>\<open>ruckig/profile.hpp\<close>, which declares \<^verbatim>\<open>Profile\<close> and its
  enumerations \<^verbatim>\<open>Limits\<close>, \<^verbatim>\<open>Teeth\<close> and \<^verbatim>\<open>Direction\<close>, is not among the sources.
  The limit classifications are the eight the spec lists; the teeth tag tells a single
  excursion from a double one; the directions \<open>UP\<close> and \<open>DOWN\<close> are named by steps.hpp.
\<close>

datatype Limits = NONE | ACC0 | ACC1 | ACC0_ACC1 | VEL | ACC0_VEL | ACC1_VEL | ACC0_ACC1_VEL

datatype Teeth = SINGLE_EXCURSION | DOUBLE_EXCURSION

datatype Direction = UP | DOWN

text \<open>
  Modelled from the spec: the members of \<^verbatim>\<open>Profile\<close> that steps.hpp reads or writes
  (\<^verbatim>\<open>t_sum\<close>, an array of seven cumulative phase times, read at the constant index 6;
  \<^verbatim>\<open>t_brake\<close>, an optional double; \<^verbatim>\<open>teeth\<close>; \<^verbatim>\<open>direction\<close>) and the limit
  classification of the spec's data model.
\<close>

record Profile =
  t_sum :: "double list"
  t_brake :: "double option"
  limits :: Limits
  teeth :: Teeth
  direction :: Direction

subsection \<open>Block (steps.hpp, lines 12 to 32)\<close>

record Interval =
  left :: double
  right :: double
  profile :: Profile

record Block =
  t_min :: double
  p_min :: Profile
  a :: "Interval option"
  b :: "Interval option"

text \<open>
  The constructor \<^verbatim>\<open>Block(const Profile& p_min)\<close>. Its initialiser reads the parameter
  \<^verbatim>\<open>p_min\<close> (which hides the member of that name); \<^verbatim>\<open>value_or(0.0)\<close> is the case
  distinction on the optional; the optionals \<^verbatim>\<open>a\<close> and \<^verbatim>\<open>b\<close> are default-constructed,
  that is empty.
\<close>

definition Block_ctor :: "Profile \<Rightarrow> Block" where
  "Block_ctor p_min' =
     \<lparr>t_min = t_sum p_min' ! 6 + (case t_brake p_min' of None \<Rightarrow> 0 | Some v \<Rightarrow> v),
      p_min = p_min',
      a = None,
      b = None\<rparr>"

definition is_blocked :: "Block \<Rightarrow> double \<Rightarrow> bool" where
  "is_blocked self t =
     (t < t_min self
      \<or> (case a self of None \<Rightarrow> False | Some ia \<Rightarrow> left ia < t \<and> t < right ia)
      \<or> (case b self of None \<Rightarrow> False | Some ib \<Rightarrow> left ib < t \<and> t < right ib))"

subsection \<open>Step1 (steps.hpp, lines 47 to 121)\<close>

record Step1 =
  p0 :: double
  v0 :: double
  a0 :: double
  pf :: double
  vf :: double
  af :: double
  vMax :: double
  vMin :: double
  aMax :: double
  jMax :: double
  pd :: double
  v0_v0 :: double
  vf_vf :: double
  a0_a0 :: double
  a0_p3 :: double
  a0_p4 :: double
  a0_p5 :: double
  a0_p6 :: double
  af_af :: double
  af_p3 :: double
  af_p4 :: double
  af_p5 :: double
  af_p6 :: double
  aMax_aMax :: double
  jMax_jMax :: double
  valid_profiles :: "Profile list"
  valid_profile_counter :: size_t
  block :: Block

text \<open>
  \<^verbatim>\<open>add_profile(Profile profile, double jMax)\<close>: the parameter \<^verbatim>\<open>jMax\<close> hides the
  member \<^verbatim>\<open>jMax\<close>; it is \<open>jMax'\<close> here. The write to
  \<^verbatim>\<open>valid_profiles[valid_profile_counter]\<close> is unchecked in C++; the array has six
  elements.
\<close>

definition add_profile :: "Step1 \<Rightarrow> Profile \<Rightarrow> double \<Rightarrow> failure + Step1" where
  "add_profile self profile' jMax' =
     (let tagged = profile'\<lparr>direction := (if jMax' > 0 then UP else DOWN)\<rparr>;
          i = unat (valid_profile_counter self)
      in if i < 6
         then Inr (self\<lparr>valid_profiles := (valid_profiles self)[i := tagged],
                        valid_profile_counter := valid_profile_counter self + 1\<rparr>)
         else Inl IndexOutOfRange)"

text \<open>
  \<^verbatim>\<open>add_interval(std::optional<Block::Interval>& interval, size_t left, size_t right,
  double t_brake) const\<close>: the method changes only the optional it is given by reference, so
  the model takes the optional's old value and returns its new value. The three guards at
  the head of the body are comments in the source and are therefore absent here.
\<close>

definition add_interval ::
  "Step1 \<Rightarrow> Interval option \<Rightarrow> size_t \<Rightarrow> size_t \<Rightarrow> double \<Rightarrow> failure + Interval option" where
  "add_interval self interval left' right' t_brake' =
     (if unat left' < 6 \<and> unat right' < 6
      then (let left_duration = t_sum (valid_profiles self ! unat left') ! 6 + t_brake';
                right_duraction = t_sum (valid_profiles self ! unat right') ! 6 + t_brake'
            in if left_duration < right_duraction
               then Inr (Some \<lparr>left = left_duration, right = right_duraction,
                                profile = valid_profiles self ! unat right'\<rparr>)
               else Inr (Some \<lparr>left = right_duraction, right = left_duration,
                                profile = valid_profiles self ! unat left'\<rparr>))
      else Inl IndexOutOfRange)"

text \<open>
  The representation invariant of a \<^verbatim>\<open>Step1\<close> object: the array has its six elements
  and the counter has not passed the capacity.
\<close>

definition Step1_inv :: "Step1 \<Rightarrow> bool" where
  "Step1_inv self \<longleftrightarrow>
     length (valid_profiles self) = 6 \<and> unat (valid_profile_counter self) \<le> 6"

text \<open>
  A run of Step1, as far as its record of profiles goes: the calls of \<^verbatim>\<open>add_profile\<close> it
  makes, in order, each with the profile and the jerk it passes. The branch solvers that
  make these calls are declared in steps.hpp and defined elsewhere, so the calls are a
  parameter. The run stops at the first failure.
\<close>

fun add_profiles :: "Step1 \<Rightarrow> (Profile \<times> double) list \<Rightarrow> failure + Step1" where
  "add_profiles self [] = Inr self"
| "add_profiles self ((profile', jMax') # calls) =
     (case add_profile self profile' jMax' of
        Inl e \<Rightarrow> Inl e
      | Inr self' \<Rightarrow> add_profiles self' calls)"

subsection \<open>Brake (steps.hpp, lines 35 to 44)\<close>

text \<open>The tolerance \<^verbatim>\<open>static constexpr double eps {2e-14}\<close> of class \<^verbatim>\<open>Brake\<close>.\<close>

definition eps :: double where
  "eps = 2 / 10 ^ 14"

text \<open>
  Modelled from the spec: steps.hpp only declares \<^verbatim>\<open>Brake::get_brake_trajectory\<close> and
  its helpers \<^verbatim>\<open>acceleration_brake\<close> and \<^verbatim>\<open>velocity_brake\<close>; their bodies are not
  among the sources. The spec (section 4.1) says: braking is triggered only when \<open>v0\<close> or
  \<open>a0\<close> lies outside \<open>[vMin, vMax] \<times> [-aMax, aMax]\<close> beyond the tolerance \<open>eps\<close>; there
  are two sub-cases, acceleration out of bound, and velocity out of bound with the
  acceleration already in bound; segments are zero-length when no braking is needed. The
  spec gives no formula for the two sub-cases, so what each of them returns is a
  parameter. The result is the pair of arrays \<open>(t_brake, j_brake)\<close>.
\<close>

type_synonym brake_case =
  "double \<Rightarrow> double \<Rightarrow> double \<Rightarrow> double \<Rightarrow> double \<Rightarrow> double \<Rightarrow> double list \<times> double list"

definition get_brake_trajectory ::
  "brake_case \<Rightarrow> brake_case \<Rightarrow>
   double \<Rightarrow> double \<Rightarrow> double \<Rightarrow> double \<Rightarrow> double \<Rightarrow> double \<Rightarrow> double list \<times> double list" where
  "get_brake_trajectory acceleration_case velocity_case v0' a0' vMax' vMin' aMax' jMax' =
     (if a0' > aMax' + eps \<or> a0' < - aMax' - eps
      then acceleration_case v0' a0' vMax' vMin' aMax' jMax'
      else if v0' > vMax' + eps \<or> v0' < vMin' - eps
      then velocity_case v0' a0' vMax' vMin' aMax' jMax'
      else ([0, 0], [0, 0]))"

subsection \<open>The solvers (declared in steps.hpp, lines 67 to 83, 113, 120, 144 to 165)\<close>

text \<open>The successes among the outcomes of a series of attempts, in order.\<close>

fun recorded :: "'a option list \<Rightarrow> 'a list" where
  "recorded [] = []"
| "recorded (None # attempts) = recorded attempts"
| "recorded (Some x # attempts) = x # recorded attempts"

text \<open>
  The profile of shortest total duration, brake included, among \<open>p\<close> and the profiles of a
  list; the total duration of a profile is what \<open>Block_ctor\<close> computes as \<open>t_min\<close>.
\<close>

fun shortest :: "Profile \<Rightarrow> Profile list \<Rightarrow> Profile" where
  "shortest p [] = p"
| "shortest p (q # qs) =
     shortest (if t_min (Block_ctor q) < t_min (Block_ctor p) then q else p) qs"

text \<open>
  Modelled from the spec: steps.hpp declares \<^verbatim>\<open>Step1::get_profile\<close>,
  \<^verbatim>\<open>Step1::calculate_block\<close> and the sixteen branch solvers of Step1; their bodies are
  not among the sources. The spec (sections 4.2 and 7) says: each of the sixteen branches
  is attempted once; each success is recorded, tagged with direction, in the array of
  capacity 6; after all attempts, if none succeeded the call reports infeasible through
  its boolean result; otherwise the recorded profile of shortest duration becomes \<open>p_min\<close>,
  its duration \<open>t_min\<close>, and up to two forbidden intervals are stored in the block. The
  spec gives no formula for a branch and no rule for which pairs of recorded profiles
  bound an interval, so these are parameters: \<open>attempts\<close> holds the outcome of each
  attempt (nothing, or the profile found with the jerk passed on recording it), and
  \<open>gaps\<close> gives the two optional intervals for the profiles recorded. Recording is
  \<open>add_profile\<close> of steps.hpp. The result is the boolean and the object left behind.
\<close>

definition Step1_get_profile ::
  "(Profile \<times> double) option list \<Rightarrow> (Profile list \<Rightarrow> Interval option \<times> Interval option) \<Rightarrow>
   Step1 \<Rightarrow> failure + bool \<times> Step1" where
  "Step1_get_profile attempts gaps self =
     (case add_profiles self (recorded attempts) of
        Inl e \<Rightarrow> Inl e
      | Inr self' \<Rightarrow>
          (case take (unat (valid_profile_counter self')) (valid_profiles self') of
             [] \<Rightarrow> Inr (False, self')
           | p # ps \<Rightarrow>
               Inr (True,
                    self'\<lparr>block := (Block_ctor (shortest p ps))
                                     \<lparr>a := fst (gaps (p # ps)), b := snd (gaps (p # ps))\<rparr>\<rparr>)))"

text \<open>
  Modelled from the spec: steps.hpp declares \<^verbatim>\<open>Step2::get_profile\<close> and the sixteen
  branch solvers of Step2; their bodies are not among the sources. The spec (sections 4.3
  and 7) says: the branches are tried in a fixed priority order, the first branch that
  yields a valid fit is written to \<open>profile\<close>, and when no branch does the call reports
  infeasible through its boolean result, without retrying. The spec gives no formula for
  a branch, so the outcomes of the attempts, in priority order, are the parameter
  \<open>attempts\<close>. The result is the boolean and the value of \<open>profile\<close> left behind.
\<close>

fun Step2_get_profile :: "Profile option list \<Rightarrow> Profile \<Rightarrow> bool \<times> Profile" where
  "Step2_get_profile [] profile' = (False, profile')"
| "Step2_get_profile (None # attempts) profile' = Step2_get_profile attempts profile'"
| "Step2_get_profile (Some fit # attempts) profile' = (True, fit)"

subsection \<open>Concrete values\<close>

text \<open>Inputs at which the theorems below are instantiated.\<close>

definition example_profile :: "double \<Rightarrow> Teeth \<Rightarrow> Direction \<Rightarrow> Profile" where
  "example_profile d th dir =
     \<lparr>t_sum = [0, 0, 0, 0, 0, 0, d], t_brake = None, limits = NONE, teeth = th,
      direction = dir\<rparr>"

definition example_block :: Block where
  "example_block =
     \<lparr>t_min = 1, p_min = example_profile 1 SINGLE_EXCURSION UP,
      a = Some \<lparr>left = 2, right = 3, profile = example_profile 3 SINGLE_EXCURSION UP\<rparr>,
      b = None\<rparr>"

definition example_interval :: Interval where
  "example_interval =
     \<lparr>left = 0, right = 100, profile = example_profile 100 SINGLE_EXCURSION UP\<rparr>"

definition example_profiles :: "Profile list" where
  "example_profiles =
     [example_profile 5 SINGLE_EXCURSION UP, example_profile 3 DOUBLE_EXCURSION DOWN,
      example_profile 0 SINGLE_EXCURSION UP, example_profile 0 SINGLE_EXCURSION UP,
      example_profile 0 SINGLE_EXCURSION UP, example_profile 0 SINGLE_EXCURSION UP]"

definition example_step1 :: "Profile list \<Rightarrow> size_t \<Rightarrow> Step1" where
  "example_step1 ps n =
     \<lparr>p0 = 0, v0 = 0, a0 = 0, pf = 1, vf = 0, af = 0, vMax = 1, vMin = - 1, aMax = 1, jMax = 1,
      pd = 1, v0_v0 = 0, vf_vf = 0, a0_a0 = 0, a0_p3 = 0, a0_p4 = 0, a0_p5 = 0, a0_p6 = 0,
      af_af = 0, af_p3 = 0, af_p4 = 0, af_p5 = 0, af_p6 = 0, aMax_aMax = 1, jMax_jMax = 1,
      valid_profiles = ps, valid_profile_counter = n,
      block = Block_ctor (example_profile 0 SINGLE_EXCURSION UP)\<rparr>"

section \<open>Theorems\<close>

subsection \<open>Block\<close>

text \<open>
  C1. For every Block, \<open>is_blocked t\<close> is true if and only if \<open>t < t_min\<close>, or interval
  \<open>a\<close> is present and \<open>t\<close> lies strictly between its endpoints, or interval \<open>b\<close> is present
  and \<open>t\<close> lies strictly between its endpoints. In particular \<open>t_min\<close> itself is not blocked
  when it lies strictly inside no present interval, and the right endpoint of a present
  interval is blocked only by \<open>t_min\<close> or by the other interval, never by the interval it
  belongs to.
\<close>

theorem is_blocked_iff:
  "(is_blocked blk t \<longleftrightarrow>
      t < t_min blk
      \<or> (\<exists>i. a blk = Some i \<and> left i < t \<and> t < right i)
      \<or> (\<exists>i. b blk = Some i \<and> left i < t \<and> t < right i))
   \<and> ((\<forall>i. a blk = Some i \<longrightarrow> \<not> (left i < t_min blk \<and> t_min blk < right i))
        \<and> (\<forall>i. b blk = Some i \<longrightarrow> \<not> (left i < t_min blk \<and> t_min blk < right i))
       \<longrightarrow> \<not> is_blocked blk (t_min blk))
   \<and> (\<forall>i. a blk = Some i \<longrightarrow>
         (is_blocked blk (right i) \<longleftrightarrow>
            right i < t_min blk
            \<or> (\<exists>j. b blk = Some j \<and> left j < right i \<and> right i < right j)))
   \<and> (\<forall>i. b blk = Some i \<longrightarrow>
         (is_blocked blk (right i) \<longleftrightarrow>
            right i < t_min blk
            \<or> (\<exists>j. a blk = Some j \<and> left j < right i \<and> right i < right j)))"
  by (auto simp: is_blocked_def split: option.splits)

theorem is_blocked_iff_witness:
  "is_blocked example_block (5 / 2) \<and> is_blocked example_block (1 / 2)
   \<and> \<not> is_blocked example_block 1 \<and> \<not> is_blocked example_block 3"
  using is_blocked_iff [of example_block "5 / 2"] is_blocked_iff [of example_block "1 / 2"]
  by (simp add: example_block_def)

text \<open>
  C2, as stated, fails: a block with \<open>t_min = 1\<close> and the interval from 2 to 3 in slot
  \<open>a\<close> has its left endpoint 2 at or above \<open>t_min\<close>, and \<open>is_blocked 2\<close> is false, because
  the comparison \<^verbatim>\<open>a->left < t\<close> is strict.
\<close>

theorem interval_left_edge_counterexample:
  "a example_block
     = Some \<lparr>left = 2, right = 3, profile = example_profile 3 SINGLE_EXCURSION UP\<rparr>
   \<and> t_min example_block \<le> 2
   \<and> \<not> is_blocked example_block 2"
  by (simp add: example_block_def is_blocked_def)

text \<open>
  C2, amended. Each stored Interval of a Block denotes the open range of durations strictly
  between \<open>left\<close> and \<open>right\<close>: for every Block holding an interval, \<open>is_blocked\<close> is true at
  every \<open>t\<close> with \<open>left < t < right\<close>, while neither endpoint is blocked by the interval
  itself: the left endpoint, like the right one, is blocked only when it is below \<open>t_min\<close>
  or strictly inside the other interval.
\<close>

theorem interval_open_range:
  "(\<forall>i. a blk = Some i \<longrightarrow>
      (left i < t \<and> t < right i \<longrightarrow> is_blocked blk t)
      \<and> (is_blocked blk (left i) \<longleftrightarrow>
            left i < t_min blk
            \<or> (\<exists>j. b blk = Some j \<and> left j < left i \<and> left i < right j))
      \<and> (is_blocked blk (right i) \<longleftrightarrow>
            right i < t_min blk
            \<or> (\<exists>j. b blk = Some j \<and> left j < right i \<and> right i < right j)))
   \<and> (\<forall>i. b blk = Some i \<longrightarrow>
      (left i < t \<and> t < right i \<longrightarrow> is_blocked blk t)
      \<and> (is_blocked blk (left i) \<longleftrightarrow>
            left i < t_min blk
            \<or> (\<exists>j. a blk = Some j \<and> left j < left i \<and> left i < right j))
      \<and> (is_blocked blk (right i) \<longleftrightarrow>
            right i < t_min blk
            \<or> (\<exists>j. a blk = Some j \<and> left j < right i \<and> right i < right j)))"
  by (auto simp: is_blocked_def split: option.splits)

theorem interval_open_range_witness:
  "a example_block
     = Some \<lparr>left = 2, right = 3, profile = example_profile 3 SINGLE_EXCURSION UP\<rparr>
   \<and> is_blocked example_block (5 / 2)
   \<and> \<not> is_blocked example_block 2
   \<and> \<not> is_blocked example_block 3"
  using interval_open_range [of example_block "5 / 2"]
  by (simp add: example_block_def)

text \<open>
  C4. Constructing a Block from a profile \<open>p\<close> gives \<open>t_min = p.t_sum[6] + p.t_brake\<close>, the
  brake time counting as 0 when it is absent, sets \<open>p_min\<close> to \<open>p\<close> and leaves the intervals
  \<open>a\<close> and \<open>b\<close> absent; right after construction \<open>is_blocked t\<close> holds exactly for
  \<open>t < t_min\<close>.
\<close>

theorem Block_ctor_fresh:
  "t_min (Block_ctor p) = t_sum p ! 6 + (case t_brake p of None \<Rightarrow> 0 | Some v \<Rightarrow> v)
   \<and> (t_brake p = None \<longrightarrow> t_min (Block_ctor p) = t_sum p ! 6)
   \<and> p_min (Block_ctor p) = p
   \<and> a (Block_ctor p) = None
   \<and> b (Block_ctor p) = None
   \<and> (is_blocked (Block_ctor p) t \<longleftrightarrow> t < t_min (Block_ctor p))"
  by (simp add: Block_ctor_def is_blocked_def)

theorem Block_ctor_fresh_witness:
  "t_min (Block_ctor (example_profile 3 SINGLE_EXCURSION UP)) = 3
   \<and> t_min (Block_ctor ((example_profile 3 SINGLE_EXCURSION UP)\<lparr>t_brake := Some 2\<rparr>)) = 5
   \<and> is_blocked (Block_ctor (example_profile 3 SINGLE_EXCURSION UP)) 2
   \<and> \<not> is_blocked (Block_ctor (example_profile 3 SINGLE_EXCURSION UP)) 3"
  using Block_ctor_fresh [of "example_profile 3 SINGLE_EXCURSION UP" 2]
    Block_ctor_fresh [of "example_profile 3 SINGLE_EXCURSION UP" 3]
    Block_ctor_fresh [of "(example_profile 3 SINGLE_EXCURSION UP)\<lparr>t_brake := Some 2\<rparr>" 0]
  by (simp add: example_profile_def)

subsection \<open>Step1: recording profiles\<close>

lemma unat_counter_suc:
  "unat (c :: size_t) < 6 \<Longrightarrow> unat (c + 1) = unat c + 1"
  by (simp add: unat_word_ariths)

lemma add_profile_Inr:
  assumes "unat (valid_profile_counter s) < 6"
  shows "add_profile s p j =
           Inr (s\<lparr>valid_profiles :=
                     (valid_profiles s)[unat (valid_profile_counter s) :=
                        p\<lparr>direction := (if 0 < j then UP else DOWN)\<rparr>],
                   valid_profile_counter := valid_profile_counter s + 1\<rparr>)"
  using assms by (simp add: add_profile_def Let_def)

lemma add_profile_inv:
  assumes "Step1_inv s" and "add_profile s p j = Inr s'"
  shows "Step1_inv s' \<and> unat (valid_profile_counter s') = unat (valid_profile_counter s) + 1"
  using assms
  by (auto simp: add_profile_def Let_def Step1_inv_def unat_counter_suc split: if_splits)

lemma add_profiles_ok:
  "Step1_inv s \<Longrightarrow> unat (valid_profile_counter s) + length calls \<le> 6 \<Longrightarrow>
   \<exists>s'. add_profiles s calls = Inr s' \<and> Step1_inv s'
        \<and> unat (valid_profile_counter s') = unat (valid_profile_counter s) + length calls"
proof (induction calls arbitrary: s)
  case Nil
  then show ?case by simp
next
  case (Cons c calls)
  obtain p j where c: "c = (p, j)" by (cases c)
  from Cons.prems have "unat (valid_profile_counter s) < 6" by simp
  then obtain s1 where s1: "add_profile s p j = Inr s1"
    by (simp add: add_profile_Inr)
  from add_profile_inv [OF Cons.prems(1) s1]
  have inv1: "Step1_inv s1"
    and cnt1: "unat (valid_profile_counter s1) = unat (valid_profile_counter s) + 1"
    by simp_all
  from Cons.prems(2) cnt1 have "unat (valid_profile_counter s1) + length calls \<le> 6" by simp
  from Cons.IH [OF inv1 this] obtain s' where
    "add_profiles s1 calls = Inr s'" "Step1_inv s'"
    "unat (valid_profile_counter s') = unat (valid_profile_counter s1) + length calls"
    by blast
  with c s1 cnt1 show ?case by simp
qed

lemma add_profiles_overflow:
  "Step1_inv s \<Longrightarrow> 6 < unat (valid_profile_counter s) + length calls \<Longrightarrow>
   add_profiles s calls = Inl IndexOutOfRange"
proof (induction calls arbitrary: s)
  case Nil
  then show ?case by (simp add: Step1_inv_def)
next
  case (Cons c calls)
  obtain p j where c: "c = (p, j)" by (cases c)
  show ?case
  proof (cases "unat (valid_profile_counter s) < 6")
    case True
    then obtain s1 where s1: "add_profile s p j = Inr s1"
      by (simp add: add_profile_Inr)
    from add_profile_inv [OF Cons.prems(1) s1]
    have inv1: "Step1_inv s1"
      and cnt1: "unat (valid_profile_counter s1) = unat (valid_profile_counter s) + 1"
      by simp_all
    from Cons.prems(2) cnt1 have "6 < unat (valid_profile_counter s1) + length calls" by simp
    from Cons.IH [OF inv1 this] c s1 show ?thesis by simp
  next
    case False
    then have "add_profile s p j = Inl IndexOutOfRange"
      by (simp add: add_profile_def Let_def)
    with c show ?thesis by simp
  qed
qed

text \<open>
  C7. For every profile and jerk argument, \<open>add_profile\<close> tags the stored profile's
  direction UP exactly when the \<open>jMax\<close> argument is strictly positive and DOWN otherwise
  (so also for \<open>jMax = 0\<close>), stores the tagged profile at index \<open>valid_profile_counter\<close> of
  \<open>valid_profiles\<close>, and increments \<open>valid_profile_counter\<close> by exactly one. The other
  elements of the array and the other members of Step1 keep their values. The state is
  one in which the write is inside the array: the counter is below the capacity 6.
\<close>

theorem add_profile_tags_and_stores:
  assumes "Step1_inv s" and "unat (valid_profile_counter s) < 6"
  shows "\<exists>s'. add_profile s p j = Inr s'
           \<and> valid_profiles s' ! unat (valid_profile_counter s)
               = p\<lparr>direction := (if 0 < j then UP else DOWN)\<rparr>
           \<and> (direction (valid_profiles s' ! unat (valid_profile_counter s)) = UP \<longleftrightarrow> 0 < j)
           \<and> (direction (valid_profiles s' ! unat (valid_profile_counter s)) = DOWN \<longleftrightarrow> j \<le> 0)
           \<and> (\<forall>k. k \<noteq> unat (valid_profile_counter s) \<longrightarrow>
                 valid_profiles s' ! k = valid_profiles s ! k)
           \<and> length (valid_profiles s') = 6
           \<and> valid_profile_counter s' = valid_profile_counter s + 1
           \<and> unat (valid_profile_counter s') = unat (valid_profile_counter s) + 1
           \<and> s'\<lparr>valid_profiles := valid_profiles s,
                 valid_profile_counter := valid_profile_counter s\<rparr> = s"
  using assms
  by (simp add: add_profile_Inr Step1_inv_def unat_counter_suc)

theorem add_profile_tags_and_stores_witness:
  "Step1_inv (example_step1 example_profiles 2)
   \<and> unat (valid_profile_counter (example_step1 example_profiles 2)) < 6
   \<and> (\<exists>s'. add_profile (example_step1 example_profiles 2)
               (example_profile 7 SINGLE_EXCURSION UP) 0 = Inr s'
            \<and> valid_profiles s' ! 2 = example_profile 7 SINGLE_EXCURSION DOWN
            \<and> valid_profile_counter s' = 3)
   \<and> (\<exists>s'. add_profile (example_step1 example_profiles 2)
               (example_profile 7 SINGLE_EXCURSION DOWN) (1 / 2) = Inr s'
            \<and> valid_profiles s' ! 2 = example_profile 7 SINGLE_EXCURSION UP
            \<and> valid_profile_counter s' = 3)"
proof -
  let ?s = "example_step1 example_profiles 2"
  have inv: "Step1_inv ?s"
    by (simp add: Step1_inv_def example_step1_def example_profiles_def)
  have c: "valid_profile_counter ?s = 2"
    by (simp add: example_step1_def)
  then have lt: "unat (valid_profile_counter ?s) < 6"
    by simp
  from add_profile_tags_and_stores [OF inv lt, of "example_profile 7 SINGLE_EXCURSION UP" 0]
  have down: "\<exists>s'. add_profile ?s (example_profile 7 SINGLE_EXCURSION UP) 0 = Inr s'
            \<and> valid_profiles s' ! 2 = example_profile 7 SINGLE_EXCURSION DOWN
            \<and> valid_profile_counter s' = 3"
    by (auto simp: c example_profile_def)
  from add_profile_tags_and_stores [OF inv lt, of "example_profile 7 SINGLE_EXCURSION DOWN" "1 / 2"]
  have up: "\<exists>s'. add_profile ?s (example_profile 7 SINGLE_EXCURSION DOWN) (1 / 2) = Inr s'
            \<and> valid_profiles s' ! 2 = example_profile 7 SINGLE_EXCURSION UP
            \<and> valid_profile_counter s' = 3"
    by (auto simp: c example_profile_def)
  from inv lt down up show ?thesis by blast
qed

text \<open>
  C9. The write \<open>valid_profiles[valid_profile_counter]\<close> of \<open>add_profile\<close> is inside the
  array exactly when \<open>valid_profile_counter < 6\<close>; at the capacity the call ends in the
  indexing failure. A run of Step1 that starts with the counter at 0 and records at most 6
  profiles never reaches that failure, and at every point of the run the counter is the
  number of profiles recorded so far, which does not exceed 6; a run that records more
  than 6 does reach the failure.
\<close>

theorem add_profile_within_capacity:
  assumes "Step1_inv s"
  shows "((\<exists>s'. add_profile s p j = Inr s') \<longleftrightarrow> unat (valid_profile_counter s) < 6)
       \<and> (add_profile s p j = Inl IndexOutOfRange \<longleftrightarrow> unat (valid_profile_counter s) = 6)
       \<and> (valid_profile_counter s = 0 \<and> length calls \<le> 6 \<longrightarrow>
            (\<forall>n\<le>length calls.
               \<exists>s'. add_profiles s (take n calls) = Inr s'
                    \<and> unat (valid_profile_counter s') = n
                    \<and> unat (valid_profile_counter s') \<le> 6))
       \<and> (valid_profile_counter s = 0 \<and> 6 < length calls \<longrightarrow>
            add_profiles s calls = Inl IndexOutOfRange)"
proof -
  have one: "(\<exists>s'. add_profile s p j = Inr s') \<longleftrightarrow> unat (valid_profile_counter s) < 6"
    by (auto simp: add_profile_def Let_def)
  have two: "add_profile s p j = Inl IndexOutOfRange \<longleftrightarrow> unat (valid_profile_counter s) = 6"
    using assms by (auto simp: add_profile_def Let_def Step1_inv_def)
  have three: "\<exists>s'. add_profiles s (take n calls) = Inr s'
                  \<and> unat (valid_profile_counter s') = n
                  \<and> unat (valid_profile_counter s') \<le> 6"
    if "valid_profile_counter s = 0" "length calls \<le> 6" "n \<le> length calls" for n
    using add_profiles_ok [OF assms, of "take n calls"] that by auto
  have four: "add_profiles s calls = Inl IndexOutOfRange"
    if "valid_profile_counter s = 0" "6 < length calls"
    using add_profiles_overflow [OF assms, of calls] that by simp
  from one two three four show ?thesis by blast
qed

theorem add_profile_within_capacity_witness:
  "Step1_inv (example_step1 example_profiles 0)
   \<and> (\<exists>s'. add_profile (example_step1 example_profiles 0)
              (example_profile 1 SINGLE_EXCURSION UP) 1 = Inr s')
   \<and> (\<exists>s'. add_profiles (example_step1 example_profiles 0)
              (replicate 6 (example_profile 1 SINGLE_EXCURSION UP, 1)) = Inr s'
            \<and> unat (valid_profile_counter s') = 6)
   \<and> add_profiles (example_step1 example_profiles 0)
        (replicate 7 (example_profile 1 SINGLE_EXCURSION UP, 1)) = Inl IndexOutOfRange"
proof -
  let ?s = "example_step1 example_profiles 0"
  have inv: "Step1_inv ?s"
    by (simp add: Step1_inv_def example_step1_def example_profiles_def)
  have c: "valid_profile_counter ?s = 0"
    by (simp add: example_step1_def)
  from add_profile_within_capacity [OF inv,
      of "example_profile 1 SINGLE_EXCURSION UP" 1
         "replicate 6 (example_profile 1 SINGLE_EXCURSION UP, 1)"]
  have six: "(\<exists>s'. add_profile ?s (example_profile 1 SINGLE_EXCURSION UP) 1 = Inr s')
       \<and> (\<exists>s'. add_profiles ?s (replicate 6 (example_profile 1 SINGLE_EXCURSION UP, 1)) = Inr s'
              \<and> unat (valid_profile_counter s') = 6)"
    by (auto simp: c dest: spec [of _ 6])
  from add_profile_within_capacity [OF inv,
      of "example_profile 1 SINGLE_EXCURSION UP" 1
         "replicate 7 (example_profile 1 SINGLE_EXCURSION UP, 1)"]
  have seven: "add_profiles ?s (replicate 7 (example_profile 1 SINGLE_EXCURSION UP, 1))
                 = Inl IndexOutOfRange"
    by (simp add: c)
  from inv six seven show ?thesis by blast
qed

subsection \<open>Step1: intervals\<close>

lemma add_interval_Inr:
  assumes "unat l < 6" and "unat r < 6"
  shows "add_interval s slot l r tb =
           Inr (Some (if t_sum (valid_profiles s ! unat l) ! 6 + tb
                           < t_sum (valid_profiles s ! unat r) ! 6 + tb
                      then \<lparr>left = t_sum (valid_profiles s ! unat l) ! 6 + tb,
                            right = t_sum (valid_profiles s ! unat r) ! 6 + tb,
                            profile = valid_profiles s ! unat r\<rparr>
                      else \<lparr>left = t_sum (valid_profiles s ! unat r) ! 6 + tb,
                            right = t_sum (valid_profiles s ! unat l) ! 6 + tb,
                            profile = valid_profiles s ! unat l\<rparr>))"
  using assms by (simp add: add_interval_def Let_def)

lemma index_below_counter:
  "Step1_inv s \<Longrightarrow> i < valid_profile_counter s \<Longrightarrow> unat i < 6"
  by (simp add: Step1_inv_def word_less_nat_alt)

text \<open>
  C3. For every Step1 state and indices \<open>left\<close>, \<open>right\<close> below \<open>valid_profile_counter\<close>,
  \<open>add_interval\<close> stores an Interval whose endpoints are the two profiles' total durations
  (\<open>t_sum[6]\<close> plus the common brake time \<open>t_brake\<close>) in ascending order, the left
  endpoint the smaller and the right endpoint the larger; the stored Profile is one of the
  two and its total duration is the right endpoint; the endpoints are the same when the two
  indices are swapped.
\<close>

theorem add_interval_endpoints:
  assumes "Step1_inv s"
    and "l < valid_profile_counter s" and "r < valid_profile_counter s"
  shows "\<exists>iv iv'.
           add_interval s slot l r tb = Inr (Some iv)
           \<and> left iv = min (t_sum (valid_profiles s ! unat l) ! 6 + tb)
                           (t_sum (valid_profiles s ! unat r) ! 6 + tb)
           \<and> right iv = max (t_sum (valid_profiles s ! unat l) ! 6 + tb)
                            (t_sum (valid_profiles s ! unat r) ! 6 + tb)
           \<and> left iv \<le> right iv
           \<and> (profile iv = valid_profiles s ! unat l \<or> profile iv = valid_profiles s ! unat r)
           \<and> t_sum (profile iv) ! 6 + tb = right iv
           \<and> add_interval s slot r l tb = Inr (Some iv')
           \<and> left iv' = left iv \<and> right iv' = right iv"
proof -
  have l: "unat l < 6" and r: "unat r < 6"
    using assms by (simp_all add: index_below_counter)
  show ?thesis
    by (auto simp: add_interval_Inr [OF l r] add_interval_Inr [OF r l])
qed

theorem add_interval_endpoints_witness:
  "Step1_inv (example_step1 example_profiles 2)
   \<and> (0 :: size_t) < valid_profile_counter (example_step1 example_profiles 2)
   \<and> (1 :: size_t) < valid_profile_counter (example_step1 example_profiles 2)
   \<and> (\<exists>iv iv'.
         add_interval (example_step1 example_profiles 2) None 0 1 1 = Inr (Some iv)
         \<and> left iv = 4 \<and> right iv = 6 \<and> t_sum (profile iv) ! 6 + 1 = 6
         \<and> add_interval (example_step1 example_profiles 2) None 1 0 1 = Inr (Some iv')
         \<and> left iv' = 4 \<and> right iv' = 6)"
proof -
  let ?s = "example_step1 example_profiles 2"
  have inv: "Step1_inv ?s"
    by (simp add: Step1_inv_def example_step1_def example_profiles_def)
  have l: "(0 :: size_t) < valid_profile_counter ?s"
    and r: "(1 :: size_t) < valid_profile_counter ?s"
    by (simp_all add: example_step1_def)
  have vl: "valid_profiles ?s ! 0 = example_profile 5 SINGLE_EXCURSION UP"
    and vr: "valid_profiles ?s ! Suc 0 = example_profile 3 DOUBLE_EXCURSION DOWN"
    by (simp_all add: example_step1_def example_profiles_def)
  have d: "t_sum (example_profile x th dir) ! 6 = x" for x th dir
    by (simp add: example_profile_def)
  from add_interval_endpoints [OF inv l r, of None 1]
  obtain iv iv' where
    "add_interval ?s None 0 1 1 = Inr (Some iv)"
    "left iv = 4" "right iv = 6" "t_sum (profile iv) ! 6 + 1 = 6"
    "add_interval ?s None 1 0 1 = Inr (Some iv')"
    "left iv' = 4" "right iv' = 6"
    by (auto simp: vl vr d)
  with inv l r show ?thesis by blast
qed

text \<open>
  C5. \<open>add_interval\<close> applies no pairing guard: for every pair of recorded profiles it
  writes the pair's interval, that is the interval from the smaller to the larger of the
  two total durations with the profile of the larger one (the profile at \<open>left\<close> on a
  tie). The write happens whether or not the optional already holds an Interval (the
  result does not depend on the optional's old value) and whether or not the teeth and
  direction tags of the two profiles match: tagging the recorded profiles in any other way
  leaves the endpoints written as they are.
\<close>

theorem add_interval_unguarded:
  assumes "Step1_inv s"
    and "l < valid_profile_counter s" and "r < valid_profile_counter s"
  shows "add_interval s slot l r tb
           = Inr (Some (if t_sum (valid_profiles s ! unat l) ! 6 + tb
                             < t_sum (valid_profiles s ! unat r) ! 6 + tb
                        then \<lparr>left = t_sum (valid_profiles s ! unat l) ! 6 + tb,
                              right = t_sum (valid_profiles s ! unat r) ! 6 + tb,
                              profile = valid_profiles s ! unat r\<rparr>
                        else \<lparr>left = t_sum (valid_profiles s ! unat r) ! 6 + tb,
                              right = t_sum (valid_profiles s ! unat l) ! 6 + tb,
                              profile = valid_profiles s ! unat l\<rparr>))
       \<and> (\<exists>iv. add_interval s slot l r tb = Inr (Some iv))
       \<and> add_interval s slot l r tb = add_interval s None l r tb
       \<and> map_sum id (map_option (\<lambda>iv. (left iv, right iv)))
           (add_interval
              (s\<lparr>valid_profiles :=
                   map (\<lambda>p. p\<lparr>teeth := th p, direction := dir p\<rparr>) (valid_profiles s)\<rparr>)
              slot l r tb)
         = map_sum id (map_option (\<lambda>iv. (left iv, right iv))) (add_interval s slot l r tb)"
proof -
  have l: "unat l < 6" and r: "unat r < 6"
    using assms by (simp_all add: index_below_counter)
  have len: "length (valid_profiles s) = 6"
    using assms(1) by (simp add: Step1_inv_def)
  show ?thesis
    using l r len
    by (simp add: add_interval_Inr [OF l r])
qed

theorem add_interval_unguarded_witness:
  "Step1_inv (example_step1 example_profiles 2)
   \<and> (0 :: size_t) < valid_profile_counter (example_step1 example_profiles 2)
   \<and> (1 :: size_t) < valid_profile_counter (example_step1 example_profiles 2)
   \<and> teeth (example_profiles ! 0) \<noteq> teeth (example_profiles ! 1)
   \<and> direction (example_profiles ! 0) \<noteq> direction (example_profiles ! 1)
   \<and> add_interval (example_step1 example_profiles 2) (Some example_interval) 0 1 1
       = Inr (Some \<lparr>left = 4, right = 6, profile = example_profile 5 SINGLE_EXCURSION UP\<rparr>)
   \<and> add_interval (example_step1 example_profiles 2) (Some example_interval) 0 1 1
       = add_interval (example_step1 example_profiles 2) None 0 1 1
   \<and> add_interval (example_step1 example_profiles 2) (Some example_interval) 0 1 1
       \<noteq> Inr (Some example_interval)"
proof -
  let ?s = "example_step1 example_profiles 2"
  have inv: "Step1_inv ?s"
    by (simp add: Step1_inv_def example_step1_def example_profiles_def)
  have l: "(0 :: size_t) < valid_profile_counter ?s"
    and r: "(1 :: size_t) < valid_profile_counter ?s"
    by (simp_all add: example_step1_def)
  have tags: "teeth (example_profiles ! 0) \<noteq> teeth (example_profiles ! 1)
              \<and> direction (example_profiles ! 0) \<noteq> direction (example_profiles ! 1)"
    by (simp add: example_profiles_def example_profile_def)
  have vl: "valid_profiles ?s ! 0 = example_profile 5 SINGLE_EXCURSION UP"
    and vr: "valid_profiles ?s ! Suc 0 = example_profile 3 DOUBLE_EXCURSION DOWN"
    by (simp_all add: example_step1_def example_profiles_def)
  have d: "t_sum (example_profile x th dir) ! 6 = x" for x th dir
    by (simp add: example_profile_def)
  note written = add_interval_unguarded [OF inv l r, of "Some example_interval" 1, where th = teeth and dir = direction]
  from written
  have new: "add_interval ?s (Some example_interval) 0 1 1
               = Inr (Some \<lparr>left = 4, right = 6,
                             profile = example_profile 5 SINGLE_EXCURSION UP\<rparr>)"
    by (simp add: vl vr d)
  from written
  have same: "add_interval ?s (Some example_interval) 0 1 1 = add_interval ?s None 0 1 1"
    by blast
  from new have "add_interval ?s (Some example_interval) 0 1 1 \<noteq> Inr (Some example_interval)"
    by (simp add: example_interval_def)
  with inv l r tags new same show ?thesis by blast
qed

subsection \<open>Brake\<close>

text \<open>
  C8. Under the preconditions \<open>vMin \<le> vMax\<close>, \<open>aMax > 0\<close>, \<open>jMax > 0\<close>,
  \<open>get_brake_trajectory\<close> returns its two arrays (it has no failing outcome), and whenever
  \<open>v0\<close> lies in \<open>[vMin, vMax]\<close> and \<open>a0\<close> in \<open>[-aMax, aMax]\<close> both brake segment durations
  are zero, whatever the two sub-cases would compute.
\<close>

theorem brake_noop_in_bounds:
  assumes "vmin \<le> vmax" and "0 < amax" and "0 < jmax"
    and "vmin \<le> v" and "v \<le> vmax" and "- amax \<le> acc" and "acc \<le> amax"
  shows "(\<exists>tb jb. get_brake_trajectory acase vcase v acc vmax vmin amax jmax = (tb, jb))
       \<and> fst (get_brake_trajectory acase vcase v acc vmax vmin amax jmax) = [0, 0]"
proof -
  have "0 < eps" by (simp add: eps_def)
  with assms have "fst (get_brake_trajectory acase vcase v acc vmax vmin amax jmax) = [0, 0]"
    by (simp add: get_brake_trajectory_def)
  moreover have "\<exists>tb jb. get_brake_trajectory acase vcase v acc vmax vmin amax jmax = (tb, jb)"
    by (cases "get_brake_trajectory acase vcase v acc vmax vmin amax jmax") simp
  ultimately show ?thesis by blast
qed

theorem brake_noop_in_bounds_witness:
  "(- 1 :: double) \<le> 1 \<and> (0 :: double) < 1
   \<and> fst (get_brake_trajectory (\<lambda>_ _ _ _ _ _. ([1, 1], [1, - 1])) (\<lambda>_ _ _ _ _ _. ([1, 1], [- 1, 1]))
          (1 / 2) (- 1) 1 (- 1) 1 1) = [0, 0]"
  using brake_noop_in_bounds [of "- 1" 1 1 1 "1 / 2" "- 1"
      "\<lambda>_ _ _ _ _ _. ([1, 1], [1, - 1])" "\<lambda>_ _ _ _ _ _. ([1, 1], [- 1, 1])"]
  by simp

subsection \<open>RuckigError\<close>

lemma recorded_empty:
  "recorded attempts = [] \<longleftrightarrow> (\<forall>x. Some x \<notin> set attempts)"
  by (induction attempts rule: recorded.induct) auto

lemma add_profiles_never_throws:
  "add_profiles s calls \<noteq> Inl (Thrown e)"
proof (induction calls arbitrary: s)
  case Nil
  show ?case by simp
next
  case (Cons c calls)
  obtain p j where c: "c = (p, j)" by (cases c)
  have "add_profile s p j \<noteq> Inl (Thrown e)"
    by (simp add: add_profile_def Let_def)
  with Cons.IH c show ?case by (auto split: sum.splits)
qed

lemma Step1_get_profile_feasible:
  assumes "Step1_inv s" and "valid_profile_counter s = 0"
    and "length (recorded attempts) \<le> 6"
  shows "\<exists>s'. Step1_get_profile attempts gaps s = Inr (\<exists>x. Some x \<in> set attempts, s')"
proof -
  from add_profiles_ok [OF assms(1), of "recorded attempts"] assms(2,3)
  obtain s1 where run: "add_profiles s (recorded attempts) = Inr s1"
    and inv1: "Step1_inv s1"
    and cnt: "unat (valid_profile_counter s1) = length (recorded attempts)"
    by auto
  from inv1 have len: "length (valid_profiles s1) = 6"
    by (simp add: Step1_inv_def)
  show ?thesis
  proof (cases "take (unat (valid_profile_counter s1)) (valid_profiles s1)")
    case Nil
    from len have "valid_profiles s1 \<noteq> []" by auto
    with Nil cnt have "recorded attempts = []" by simp
    then have "\<not> (\<exists>x. Some x \<in> set attempts)" by (simp add: recorded_empty)
    then show ?thesis by (simp add: Step1_get_profile_def run Nil)
  next
    case (Cons p ps)
    with cnt have "recorded attempts \<noteq> []" by auto
    then have "\<exists>x. Some x \<in> set attempts" by (simp add: recorded_empty)
    then show ?thesis by (simp add: Step1_get_profile_def run Cons)
  qed
qed

lemma Step2_get_profile_feasible:
  "fst (Step2_get_profile fits q) \<longleftrightarrow> (\<exists>x. Some x \<in> set fits)"
  by (induction fits q rule: Step2_get_profile.induct) auto

text \<open>
  C10. Constructing \<open>RuckigError\<close> with message \<open>m\<close> gives an error whose message is the
  newline, the tag \<open>[ruckig]\<close> and a space, followed by \<open>m\<close>. Step1, Step2 and Brake never
  end by throwing it: not the members that steps.hpp defines (\<open>add_profile\<close>,
  \<open>add_interval\<close>, a run of \<open>add_profile\<close> calls), and not \<open>Step1_get_profile\<close>,
  \<open>Step2_get_profile\<close> and \<open>get_brake_trajectory\<close>. Infeasibility is the boolean result:
  Step1 within its capacity returns true exactly when some branch succeeded, and so does
  Step2; the brake always returns its pair of arrays.
\<close>

theorem RuckigError_message:
  "what (RuckigError m) = ''\<newline>[ruckig] '' @ m
   \<and> (\<forall>e. add_profile s p j \<noteq> Inl (Thrown e))
   \<and> (\<forall>e. add_interval s slot l r tb \<noteq> Inl (Thrown e))
   \<and> (\<forall>e. add_profiles s calls \<noteq> Inl (Thrown e))
   \<and> (\<forall>e. Step1_get_profile attempts gaps s \<noteq> Inl (Thrown e))
   \<and> (Step1_inv s \<and> valid_profile_counter s = 0 \<and> length (recorded attempts) \<le> 6 \<longrightarrow>
        (\<exists>s'. Step1_get_profile attempts gaps s = Inr (\<exists>x. Some x \<in> set attempts, s')))
   \<and> (fst (Step2_get_profile fits q) \<longleftrightarrow> (\<exists>x. Some x \<in> set fits))
   \<and> (\<exists>tb jb. get_brake_trajectory acase vcase v acc vmax vmin amax jmax = (tb, jb))"
proof -
  have one: "what (RuckigError m) = ''\<newline>[ruckig] '' @ m"
    by (simp add: RuckigError_def)
  have two: "add_profile s p j \<noteq> Inl (Thrown e)" for e
    by (simp add: add_profile_def Let_def)
  have three: "add_interval s slot l r tb \<noteq> Inl (Thrown e)" for e
    by (simp add: add_interval_def Let_def)
  have four: "add_profiles s calls \<noteq> Inl (Thrown e)" for e
    by (rule add_profiles_never_throws)
  have five: "Step1_get_profile attempts gaps s \<noteq> Inl (Thrown e)" for e
    using add_profiles_never_throws [of s "recorded attempts" e]
    by (auto simp: Step1_get_profile_def split: sum.splits list.splits)
  have six: "\<exists>s'. Step1_get_profile attempts gaps s = Inr (\<exists>x. Some x \<in> set attempts, s')"
    if "Step1_inv s" "valid_profile_counter s = 0" "length (recorded attempts) \<le> 6"
    using that by (rule Step1_get_profile_feasible)
  have seven: "fst (Step2_get_profile fits q) \<longleftrightarrow> (\<exists>x. Some x \<in> set fits)"
    by (rule Step2_get_profile_feasible)
  have eight: "\<exists>tb jb. get_brake_trajectory acase vcase v acc vmax vmin amax jmax = (tb, jb)"
    by (cases "get_brake_trajectory acase vcase v acc vmax vmin amax jmax") simp
  from one two three four five six seven eight show ?thesis by blast
qed

theorem RuckigError_message_witness:
  "Step1_inv (example_step1 example_profiles 0)
   \<and> valid_profile_counter (example_step1 example_profiles 0) = 0
   \<and> what (RuckigError ''vMax'') = ''\<newline>[ruckig] vMax''
   \<and> (\<exists>s'. Step1_get_profile [None, Some (example_profile 5 SINGLE_EXCURSION UP, 1), None]
              (\<lambda>ps. (None, None)) (example_step1 example_profiles 0) = Inr (True, s'))
   \<and> (\<exists>s'. Step1_get_profile [None, None, None]
              (\<lambda>ps. (None, None)) (example_step1 example_profiles 0) = Inr (False, s'))
   \<and> fst (Step2_get_profile [None, Some (example_profile 5 SINGLE_EXCURSION UP)]
            (example_profile 0 SINGLE_EXCURSION UP))
   \<and> \<not> fst (Step2_get_profile [None, None] (example_profile 0 SINGLE_EXCURSION UP))"
proof -
  let ?s = "example_step1 example_profiles 0"
  let ?p = "example_profile 5 SINGLE_EXCURSION UP"
  let ?q = "example_profile 0 SINGLE_EXCURSION UP"
  have inv: "Step1_inv ?s"
    by (simp add: Step1_inv_def example_step1_def example_profiles_def)
  have c: "valid_profile_counter ?s = 0"
    by (simp add: example_step1_def)
  from RuckigError_message [of "''vMax''" ?s ?p 1 None 0 0 0 "[]"
      "[None, Some (?p, 1), None]" "\<lambda>ps. (None, None)" "[None, Some ?p]" ?q] inv c
  have yes: "what (RuckigError ''vMax'') = ''\<newline>[ruckig] vMax''
      \<and> (\<exists>s'. Step1_get_profile [None, Some (?p, 1), None] (\<lambda>ps. (None, None)) ?s
                 = Inr (True, s'))
      \<and> fst (Step2_get_profile [None, Some ?p] ?q)"
    by simp
  from RuckigError_message [of "''vMax''" ?s ?p 1 None 0 0 0 "[]"
      "[None, None, None]" "\<lambda>ps. (None, None)" "[None, None]" ?q] inv c
  have no: "(\<exists>s'. Step1_get_profile [None, None, None] (\<lambda>ps. (None, None)) ?s
                 = Inr (False, s'))
      \<and> \<not> fst (Step2_get_profile [None, None] ?q)"
    by simp
  from inv c yes no show ?thesis by blast
qed

end
